theory Spec2Isabelle
  imports Main
begin

section \<open>Rectangle\<close>

text \<open>
  \<^verbatim>\<open>function Rectangle(width, height) { return { width, height, getArea: () => width * height }; }\<close>

  The returned object has two data fields and a method. The method is a closure over the
  two parameters (not over the fields of the object), so it is a field holding a function.
  The number type is left open: any type with a multiplication.
\<close>

record 'a rectangle =
  width :: 'a
  height :: 'a
  getArea :: "unit \<Rightarrow> 'a"

definition Rectangle :: "'a::times \<Rightarrow> 'a \<Rightarrow> 'a rectangle" where
  "Rectangle w h = \<lparr> width = w, height = h, getArea = (\<lambda>_. w * h) \<rparr>"


section \<open>The selector builder: objects and the store\<close>

text \<open>
  Every object of the builder is an object literal whose prototype is set to the one global
  object \<open>cssSelectorBuilder\<close>. Objects are mutable (\<open>stringify\<close> assigns a field) and
  are shared by reference, so they live in a store: a list of objects, an object's address
  being its index. Address \<open>0\<close> is the global object \<open>cssSelectorBuilder\<close>; an allocation
  appends to the store.

  Every object literal of the source has its own \<open>currentSelector\<close>. The literal of
  \<open>combine\<close> has no \<open>currentOrder\<close> and no \<open>currentSelectorType\<close>: these fields are
  \<open>None\<close> there, and a read goes to the prototype, the object at address \<open>0\<close>.
\<close>

type_synonym addr = nat

record obj =
  currentSelector :: string
  currentOrder :: "nat option"
  currentSelectorType :: "string option"

type_synonym heap = "obj list"

definition cssSelectorBuilder :: obj where
  "cssSelectorBuilder =
     \<lparr> currentSelector = '''', currentOrder = Some 0, currentSelectorType = Some '''' \<rparr>"

definition root :: addr where
  "root = 0"

definition init_heap :: heap where
  "init_heap = [cssSelectorBuilder]"

text \<open>
  Reading a property: the object's own field, else the field of the prototype
  \<open>cssSelectorBuilder\<close>; \<open>None\<close> is JavaScript's \<open>undefined\<close> (the prototype of
  \<open>cssSelectorBuilder\<close> itself is \<open>Object.prototype\<close>, which has none of these fields).
\<close>

definition get_currentOrder :: "heap \<Rightarrow> addr \<Rightarrow> nat option" where
  "get_currentOrder h a =
     (case currentOrder (h ! a) of Some n \<Rightarrow> Some n | None \<Rightarrow> currentOrder (h ! root))"

definition get_currentSelectorType :: "heap \<Rightarrow> addr \<Rightarrow> string option" where
  "get_currentSelectorType h a =
     (case currentSelectorType (h ! a) of Some t \<Rightarrow> Some t
      | None \<Rightarrow> currentSelectorType (h ! root))"

definition get_currentSelector :: "heap \<Rightarrow> addr \<Rightarrow> string" where
  "get_currentSelector h a = currentSelector (h ! a)"

text \<open>\<open>x > y\<close> on two property reads: a comparison with \<open>undefined\<close> is false.\<close>

fun js_gt :: "nat option \<Rightarrow> nat option \<Rightarrow> bool" where
  "js_gt (Some x) (Some y) = (y < x)"
| "js_gt _ _ = False"


section \<open>The operations\<close>

text \<open>
  The two \<open>throw new Error(...)\<close> of \<open>checkCurrentOrder\<close>, told apart by their messages:
  \<open>DuplicateUniquePartError\<close> is "Element, id and pseudo-element should not occur more
  then one time inside the selector", \<open>OutOfOrderError\<close> is "Selector parts should be
  arranged in the following order: ...".
\<close>

datatype error = DuplicateUniquePartError | OutOfOrderError

text \<open>
  \<^verbatim>\<open>stringify() { const { currentSelector } = this; this.currentSelector = ''; return currentSelector; }\<close>
\<close>

definition stringify :: "heap \<Rightarrow> addr \<Rightarrow> string \<times> heap" where
  "stringify h this =
     (let cs = get_currentSelector h this
      in (cs, h[this := (h ! this)\<lparr> currentSelector := '''' \<rparr>]))"

text \<open>\<open>checkCurrentOrder(object)\<close>: \<open>Some e\<close> when it throws \<open>e\<close>, \<open>None\<close> when it returns.\<close>

definition checkCurrentOrder :: "heap \<Rightarrow> addr \<Rightarrow> addr \<Rightarrow> error option" where
  "checkCurrentOrder h this object =
     (if get_currentOrder h this = get_currentOrder h object \<and>
         (get_currentSelectorType h object = Some ''element''
          \<or> get_currentSelectorType h object = Some ''id''
          \<or> get_currentSelectorType h object = Some ''pseudoElement'')
      then Some DuplicateUniquePartError
      else if js_gt (get_currentOrder h this) (get_currentOrder h object)
      then Some OutOfOrderError
      else None)"

text \<open>
  The six chaining methods. Each allocates the new object first and checks the order
  afterwards, so the store has the new object also when the check throws (it is then
  unreachable). The result is the thrown error or the address of the new object, together
  with the store.
\<close>

definition element :: "string \<Rightarrow> heap \<Rightarrow> addr \<Rightarrow> (error + addr) \<times> heap" where
  "element val h this =
     (let obj = \<lparr> currentSelector = get_currentSelector h this @ val,
                  currentOrder = Some 1,
                  currentSelectorType = Some ''element'' \<rparr>;
          a = length h; h' = h @ [obj]
      in case checkCurrentOrder h' this a of
           Some e \<Rightarrow> (Inl e, h')
         | None \<Rightarrow> (Inr a, h'))"

definition id_sel :: "string \<Rightarrow> heap \<Rightarrow> addr \<Rightarrow> (error + addr) \<times> heap" where
  "id_sel val h this =
     (let obj = \<lparr> currentSelector = get_currentSelector h this @ ''#'' @ val,
                  currentOrder = Some 2,
                  currentSelectorType = Some ''id'' \<rparr>;
          a = length h; h' = h @ [obj]
      in case checkCurrentOrder h' this a of
           Some e \<Rightarrow> (Inl e, h')
         | None \<Rightarrow> (Inr a, h'))"

definition class_sel :: "string \<Rightarrow> heap \<Rightarrow> addr \<Rightarrow> (error + addr) \<times> heap" where
  "class_sel val h this =
     (let obj = \<lparr> currentSelector = get_currentSelector h this @ ''.'' @ val,
                  currentOrder = Some 3,
                  currentSelectorType = Some ''class'' \<rparr>;
          a = length h; h' = h @ [obj]
      in case checkCurrentOrder h' this a of
           Some e \<Rightarrow> (Inl e, h')
         | None \<Rightarrow> (Inr a, h'))"

definition attr :: "string \<Rightarrow> heap \<Rightarrow> addr \<Rightarrow> (error + addr) \<times> heap" where
  "attr val h this =
     (let obj = \<lparr> currentSelector = get_currentSelector h this @ ''['' @ val @ '']'',
                  currentOrder = Some 4,
                  currentSelectorType = Some ''attr'' \<rparr>;
          a = length h; h' = h @ [obj]
      in case checkCurrentOrder h' this a of
           Some e \<Rightarrow> (Inl e, h')
         | None \<Rightarrow> (Inr a, h'))"

definition pseudoClass :: "string \<Rightarrow> heap \<Rightarrow> addr \<Rightarrow> (error + addr) \<times> heap" where
  "pseudoClass val h this =
     (let obj = \<lparr> currentSelector = get_currentSelector h this @ '':'' @ val,
                  currentOrder = Some 5,
                  currentSelectorType = Some ''pseudoClass'' \<rparr>;
          a = length h; h' = h @ [obj]
      in case checkCurrentOrder h' this a of
           Some e \<Rightarrow> (Inl e, h')
         | None \<Rightarrow> (Inr a, h'))"

definition pseudoElement :: "string \<Rightarrow> heap \<Rightarrow> addr \<Rightarrow> (error + addr) \<times> heap" where
  "pseudoElement val h this =
     (let obj = \<lparr> currentSelector = get_currentSelector h this @ ''::'' @ val,
                  currentOrder = Some 6,
                  currentSelectorType = Some ''pseudoElement'' \<rparr>;
          a = length h; h' = h @ [obj]
      in case checkCurrentOrder h' this a of
           Some e \<Rightarrow> (Inl e, h')
         | None \<Rightarrow> (Inr a, h'))"

text \<open>
  \<open>combine(selector1, combinator, selector2)\<close> does not use \<open>this\<close> and never throws. Its
  object literal has the field \<open>currentSelector\<close> only.
\<close>

definition combine :: "heap \<Rightarrow> addr \<Rightarrow> string \<Rightarrow> addr \<Rightarrow> addr \<times> heap" where
  "combine h selector1 combinator selector2 =
     (let obj = \<lparr> currentSelector =
                    get_currentSelector h selector1 @ '' '' @ combinator @ '' ''
                      @ get_currentSelector h selector2,
                  currentOrder = None,
                  currentSelectorType = None \<rparr>
      in (length h, h @ [obj]))"


section \<open>Chains of calls\<close>

text \<open>
  A chain \<open>s.m\<^sub>1(v\<^sub>1).m\<^sub>2(v\<^sub>2)...\<close> is the list of its calls, each a method of the six and its
  argument. Running it stops at the first error, as the exception does.
\<close>

datatype part = Element | Id | Class | Attr | PseudoClass | PseudoElement

fun append_part :: "part \<Rightarrow> string \<Rightarrow> heap \<Rightarrow> addr \<Rightarrow> (error + addr) \<times> heap" where
  "append_part Element val h this = element val h this"
| "append_part Id val h this = id_sel val h this"
| "append_part Class val h this = class_sel val h this"
| "append_part Attr val h this = attr val h this"
| "append_part PseudoClass val h this = pseudoClass val h this"
| "append_part PseudoElement val h this = pseudoElement val h this"

fun chain :: "(part \<times> string) list \<Rightarrow> heap \<Rightarrow> addr \<Rightarrow> (error + addr) \<times> heap" where
  "chain [] h this = (Inr this, h)"
| "chain ((p, val) # ps) h this =
     (case append_part p val h this of
        (Inl e, h') \<Rightarrow> (Inl e, h')
      | (Inr a, h') \<Rightarrow> chain ps h' a)"

text \<open>The rank that the method of a part writes into \<open>currentOrder\<close>.\<close>

fun rank :: "part \<Rightarrow> nat" where
  "rank Element = 1"
| "rank Id = 2"
| "rank Class = 3"
| "rank Attr = 4"
| "rank PseudoClass = 5"
| "rank PseudoElement = 6"

text \<open>The string that the method of a part writes into \<open>currentSelectorType\<close>.\<close>

fun type_name :: "part \<Rightarrow> string" where
  "type_name Element = ''element''"
| "type_name Id = ''id''"
| "type_name Class = ''class''"
| "type_name Attr = ''attr''"
| "type_name PseudoClass = ''pseudoClass''"
| "type_name PseudoElement = ''pseudoElement''"

text \<open>The text that the method of a part appends for the argument \<open>val\<close>.\<close>

fun fragment :: "part \<Rightarrow> string \<Rightarrow> string" where
  "fragment Element val = val"
| "fragment Id val = ''#'' @ val"
| "fragment Class val = ''.'' @ val"
| "fragment Attr val = ''['' @ val @ '']''"
| "fragment PseudoClass val = '':'' @ val"
| "fragment PseudoElement val = ''::'' @ val"

text \<open>The parts that \<open>checkCurrentOrder\<close> allows once only.\<close>

fun unique_part :: "part \<Rightarrow> bool" where
  "unique_part Element = True"
| "unique_part Id = True"
| "unique_part PseudoElement = True"
| "unique_part _ = False"

text \<open>
  A client of the builder makes calls one after the other on the objects it holds. A call
  is one of the six chaining methods on a receiver, \<open>combine\<close> on two selectors, or
  \<open>stringify\<close> on a receiver; \<open>exec\<close> is the store after the call, whether it returned or
  threw, and \<open>fold exec\<close> is the store after a sequence of calls.
\<close>

datatype call = Append part string addr | Combine addr string addr | Stringify addr

fun exec :: "call \<Rightarrow> heap \<Rightarrow> heap" where
  "exec (Append p val this) h = snd (append_part p val h this)"
| "exec (Combine selector1 combinator selector2) h =
     snd (combine h selector1 combinator selector2)"
| "exec (Stringify this) h = snd (stringify h this)"

text \<open>
  The store as the program keeps it: the global object is there, and it is as the source
  declares it (no method assigns its \<open>currentOrder\<close> or \<open>currentSelectorType\<close>, and
  \<open>stringify\<close> on it assigns the empty string to a field that is empty already).
\<close>

definition wf_heap :: "heap \<Rightarrow> bool" where
  "wf_heap h = (h \<noteq> [] \<and> h ! root = cssSelectorBuilder)"


section \<open>Facts about one call\<close>

lemmas eval_defs = init_heap_def cssSelectorBuilder_def root_def element_def id_sel_def
  class_sel_def attr_def pseudoClass_def pseudoElement_def combine_def stringify_def
  checkCurrentOrder_def get_currentOrder_def get_currentSelectorType_def
  get_currentSelector_def Let_def wf_heap_def

lemma append_part_unfold:
  "append_part p val h this =
     (let obj = \<lparr> currentSelector = get_currentSelector h this @ fragment p val,
                  currentOrder = Some (rank p),
                  currentSelectorType = Some (type_name p) \<rparr>;
          a = length h; h' = h @ [obj]
      in case checkCurrentOrder h' this a of
           Some e \<Rightarrow> (Inl e, h')
         | None \<Rightarrow> (Inr a, h'))"
  by (cases p)
    (simp_all add: element_def id_sel_def class_sel_def attr_def pseudoClass_def
      pseudoElement_def)

lemma nth_append_old:
  assumes "a < length h"
  shows "(h @ [x]) ! a = h ! a" and "(h @ [x]) ! root = h ! root"
proof -
  from assms have "h \<noteq> []" by auto
  with assms show "(h @ [x]) ! a = h ! a" and "(h @ [x]) ! root = h ! root"
    by (simp_all add: root_def nth_append)
qed

lemma get_currentOrder_append_old:
  "a < length h \<Longrightarrow> get_currentOrder (h @ [x]) a = get_currentOrder h a"
  by (simp only: get_currentOrder_def nth_append_old)

lemma get_currentOrder_append_new:
  "currentOrder x = Some n \<Longrightarrow> get_currentOrder (h @ [x]) (length h) = Some n"
  by (simp add: get_currentOrder_def)

lemma get_currentSelectorType_append_new:
  "currentSelectorType x = Some t \<Longrightarrow> get_currentSelectorType (h @ [x]) (length h) = Some t"
  by (simp add: get_currentSelectorType_def)

lemma type_name_unique:
  "(type_name p = ''element'' \<or> type_name p = ''id'' \<or> type_name p = ''pseudoElement'')
     = unique_part p"
  by (cases p) simp_all

lemma checkCurrentOrder_new:
  assumes "this < length h"
  shows "checkCurrentOrder
           (h @ [\<lparr> currentSelector = cs, currentOrder = Some (rank p),
                   currentSelectorType = Some (type_name p) \<rparr>]) this (length h) =
         (if get_currentOrder h this = Some (rank p) \<and> unique_part p
          then Some DuplicateUniquePartError
          else if js_gt (get_currentOrder h this) (Some (rank p))
          then Some OutOfOrderError
          else None)"
  using assms
  by (simp add: checkCurrentOrder_def get_currentOrder_append_old
      get_currentOrder_append_new get_currentSelectorType_append_new type_name_unique)

lemma append_part_result:
  assumes "this < length h"
  shows "append_part p val h this =
         ((if get_currentOrder h this = Some (rank p) \<and> unique_part p
           then Inl DuplicateUniquePartError
           else if js_gt (get_currentOrder h this) (Some (rank p))
           then Inl OutOfOrderError
           else Inr (length h)),
          h @ [\<lparr> currentSelector = get_currentSelector h this @ fragment p val,
                 currentOrder = Some (rank p),
                 currentSelectorType = Some (type_name p) \<rparr>])"
  using assms by (simp add: append_part_unfold checkCurrentOrder_new Let_def)

lemma rank_inj: "rank p = rank q \<Longrightarrow> p = q"
  by (cases p; cases q) simp_all

lemma append_part_Inr:
  assumes "this < length h" and "append_part p val h this = (Inr a, h')"
  shows "a = length h"
    and "h' = h @ [\<lparr> currentSelector = get_currentSelector h this @ fragment p val,
                 currentOrder = Some (rank p),
                 currentSelectorType = Some (type_name p) \<rparr>]"
    and "\<not> js_gt (get_currentOrder h this) (Some (rank p))"
    and "\<not> (get_currentOrder h this = Some (rank p) \<and> unique_part p)"
  using assms by (auto simp add: append_part_result split: if_splits)

lemma append_part_Inr_state:
  assumes "this < length h" and "append_part p val h this = (Inr a, h')"
  shows "a < length h'" and "get_currentOrder h' a = Some (rank p)"
  using append_part_Inr(1,2) [OF assms] by (simp_all add: get_currentOrder_append_new)

lemma get_currentSelector_append_old:
  "a < length h \<Longrightarrow> get_currentSelector (h @ [x]) a = get_currentSelector h a"
  by (simp only: get_currentSelector_def nth_append_old)

lemma get_currentSelector_append_new:
  "get_currentSelector (h @ [x]) (length h) = currentSelector x"
  by (simp add: get_currentSelector_def)

lemma append_part_heap:
  "snd (append_part p val h this) =
     h @ [\<lparr> currentSelector = get_currentSelector h this @ fragment p val,
            currentOrder = Some (rank p),
            currentSelectorType = Some (type_name p) \<rparr>]"
  by (simp add: append_part_unfold Let_def split: option.splits)

lemma append_part_addr:
  "fst (append_part p val h this) = Inr a \<Longrightarrow> a = length h"
  by (simp add: append_part_unfold Let_def split: option.splits)

lemma part_returns:
  assumes "append_part p val h this = (Inr a, h')"
  shows "a = length h \<and> length h' = Suc (length h)
       \<and> get_currentSelector h' a = get_currentSelector h this @ fragment p val
       \<and> get_currentOrder h' a = Some (rank p)
       \<and> get_currentSelectorType h' a = Some (type_name p)"
proof -
  from assms have a: "a = length h" using append_part_addr [of p val h this a] by simp
  from assms have h': "h' = snd (append_part p val h this)" by simp
  show ?thesis unfolding h' append_part_heap a
    by (simp add: get_currentSelector_append_new get_currentOrder_append_new
        get_currentSelectorType_append_new)
qed

lemma append_part_returns_iff:
  assumes "this < length h"
  shows "(fst (append_part p val h this) = Inr (length h)) =
         (\<not> (get_currentOrder h this = Some (rank p) \<and> unique_part p)
          \<and> \<not> js_gt (get_currentOrder h this) (Some (rank p)))"
  by (simp add: append_part_result [OF assms])

lemma combine_result:
  "combine h s1 c s2 =
     (length h,
      h @ [\<lparr> currentSelector =
                 get_currentSelector h s1 @ '' '' @ c @ '' '' @ get_currentSelector h s2,
               currentOrder = None, currentSelectorType = None \<rparr>])"
  by (simp add: combine_def)

section \<open>Facts about chains\<close>

lemma chain_sorted:
  "this < length h \<Longrightarrow> get_currentOrder h this = Some r \<Longrightarrow>
   chain ps h this = (Inr a, h') \<Longrightarrow> \<forall>q\<in>set ps. r \<le> rank (fst q)"
proof (induction ps arbitrary: h this r)
  case Nil
  then show ?case by simp
next
  case (Cons x ps)
  obtain p val where x: "x = (p, val)" by (cases x)
  from Cons.prems(3) x obtain b h1 where
    step: "append_part p val h this = (Inr b, h1)" and rest: "chain ps h1 b = (Inr a, h')"
    by (auto split: prod.splits sum.splits)
  from append_part_Inr(3) [OF Cons.prems(1) step] Cons.prems(2)
  have le: "r \<le> rank p" by simp
  from Cons.IH [OF append_part_Inr_state [OF Cons.prems(1) step] rest]
  have "\<forall>q\<in>set ps. rank p \<le> rank (fst q)" .
  with le x show ?case by auto
qed

lemma chain_last:
  "this < length h \<Longrightarrow> chain ps h this = (Inr a, h') \<Longrightarrow> ps \<noteq> [] \<Longrightarrow>
   a < length h' \<and> get_currentOrder h' a = Some (rank (fst (last ps)))
   \<and> (\<forall>q\<in>set ps. rank (fst q) \<le> rank (fst (last ps)))"
proof (induction ps arbitrary: h this)
  case Nil
  then show ?case by simp
next
  case (Cons x ps)
  obtain p val where x: "x = (p, val)" by (cases x)
  from Cons.prems(2) x obtain b h1 where
    step: "append_part p val h this = (Inr b, h1)" and rest: "chain ps h1 b = (Inr a, h')"
    by (auto split: prod.splits sum.splits)
  note st = append_part_Inr_state [OF Cons.prems(1) step]
  show ?case
  proof (cases "ps = []")
    case True
    with rest st x show ?thesis by simp
  next
    case False
    from Cons.IH [OF st(1) rest False]
    have ih: "a < length h'" "get_currentOrder h' a = Some (rank (fst (last ps)))"
      "\<forall>q\<in>set ps. rank (fst q) \<le> rank (fst (last ps))" by simp_all
    from chain_sorted [OF st rest] False have "rank p \<le> rank (fst (last ps))" by simp
    with ih False x show ?thesis by simp
  qed
qed

lemma chain_text:
  "this < length h \<Longrightarrow> chain ps h this = (Inr a, h') \<Longrightarrow>
   get_currentSelector h' a =
     get_currentSelector h this @ concat (map (\<lambda>(p, val). fragment p val) ps)"
proof (induction ps arbitrary: h this)
  case Nil
  then show ?case by simp
next
  case (Cons x ps)
  obtain p val where x: "x = (p, val)" by (cases x)
  from Cons.prems(2) x obtain b h1 where
    step: "append_part p val h this = (Inr b, h1)" and rest: "chain ps h1 b = (Inr a, h')"
    by (auto split: prod.splits sum.splits)
  note st = append_part_Inr_state [OF Cons.prems(1) step]
  from append_part_Inr(1,2) [OF Cons.prems(1) step]
  have "get_currentSelector h1 b = get_currentSelector h this @ fragment p val"
    by (simp add: get_currentSelector_append_new)
  with Cons.IH [OF st(1) rest] x show ?case by simp
qed

lemma chain_repeat:
  "this < length h \<Longrightarrow> \<not> unique_part p \<Longrightarrow>
   \<not> js_gt (get_currentOrder h this) (Some (rank p)) \<Longrightarrow>
   \<exists>a h'. chain (map (Pair p) vals) h this = (Inr a, h')"
proof (induction vals arbitrary: h this)
  case Nil
  then show ?case by simp
next
  case (Cons val vals)
  let ?h1 = "h @ [\<lparr> currentSelector = get_currentSelector h this @ fragment p val,
                 currentOrder = Some (rank p),
                 currentSelectorType = Some (type_name p) \<rparr>]"
  from Cons.prems have step: "append_part p val h this = (Inr (length h), ?h1)"
    by (simp add: append_part_result)
  have "length h < length ?h1" by simp
  moreover have "\<not> js_gt (get_currentOrder ?h1 (length h)) (Some (rank p))"
    by (simp add: get_currentOrder_append_new)
  ultimately obtain a h' where "chain (map (Pair p) vals) ?h1 (length h) = (Inr a, h')"
    using Cons.IH [of "length h" ?h1] Cons.prems(2) by blast
  with step show ?case by simp
qed

section \<open>The global object is never changed\<close>

lemma wf_heap_init: "wf_heap init_heap"
  by (simp add: wf_heap_def init_heap_def root_def)

lemma wf_heap_append: "wf_heap h \<Longrightarrow> wf_heap (h @ [x])"
  by (cases h) (simp_all add: wf_heap_def root_def)

lemma wf_heap_append_part: "wf_heap h \<Longrightarrow> wf_heap (snd (append_part p val h this))"
  by (simp add: append_part_heap wf_heap_append)

lemma wf_heap_combine: "wf_heap h \<Longrightarrow> wf_heap (snd (combine h s1 c s2))"
  by (simp add: combine_result wf_heap_append)

lemma wf_heap_stringify: "wf_heap h \<Longrightarrow> wf_heap (snd (stringify h this))"
  by (cases h; cases this)
    (simp_all add: wf_heap_def stringify_def root_def cssSelectorBuilder_def)

lemma wf_heap_root_order: "wf_heap h \<Longrightarrow> get_currentOrder h root = Some 0"
  by (simp add: wf_heap_def get_currentOrder_def cssSelectorBuilder_def)

lemma wf_heap_inherited_order:
  "wf_heap h \<Longrightarrow> currentOrder (h ! a) = None \<Longrightarrow> get_currentOrder h a = Some 0"
  by (simp add: wf_heap_def get_currentOrder_def cssSelectorBuilder_def)


lemma wf_heap_exec: "wf_heap h \<Longrightarrow> wf_heap (exec c h)"
  by (cases c) (simp_all add: wf_heap_append_part wf_heap_combine wf_heap_stringify)

lemma wf_heap_reachable: "wf_heap (fold exec cs init_heap)"
proof -
  have "wf_heap h \<Longrightarrow> wf_heap (fold exec cs h)" for h
    by (induction cs arbitrary: h) (simp_all add: wf_heap_exec)
  from this [OF wf_heap_init] show ?thesis .
qed

section \<open>A consumed state stays consumed\<close>

lemma consumed_exec:
  assumes "this < length h" and "get_currentSelector h this = ''''"
  shows "this < length (exec c h) \<and> get_currentSelector (exec c h) this = ''''"
proof (cases c)
  case (Append p val a)
  with assms show ?thesis
    by (simp add: append_part_heap get_currentSelector_append_old)
next
  case (Combine s1 k s2)
  with assms show ?thesis
    by (simp add: combine_result get_currentSelector_append_old)
next
  case (Stringify a)
  with assms show ?thesis
    by (cases "a = this") (simp_all add: stringify_def get_currentSelector_def)
qed

lemma consumed_fold:
  "this < length h \<Longrightarrow> get_currentSelector h this = '''' \<Longrightarrow>
   this < length (fold exec cs h) \<and> get_currentSelector (fold exec cs h) this = ''''"
proof (induction cs arbitrary: h)
  case Nil
  then show ?case by simp
next
  case (Cons c cs)
  from consumed_exec [OF Cons.prems, of c] Cons.IH [of "exec c h"]
  show ?case by simp
qed


section \<open>Rectangle: fields and area\<close>

text \<open>
  C10. For every two numbers \<open>w\<close> and \<open>h\<close>, \<open>Rectangle(w, h)\<close> is an object whose
  \<open>width\<close> is \<open>w\<close>, whose \<open>height\<close> is \<open>h\<close>, and whose \<open>getArea()\<close> returns \<open>w * h\<close>.
\<close>

theorem Rectangle_fields_area:
  "width (Rectangle w h) = w \<and> height (Rectangle w h) = h \<and> getArea (Rectangle w h) () = w * h"
  by (simp add: Rectangle_def)


section \<open>A second element, id or pseudo-element\<close>

text \<open>
  C1, as the code has it. A chain \<open>ps\<close> has run from a state \<open>this\<close> without an error and
  has a fragment of the part \<open>p\<close>, one of element, id and pseudo-element. Appending \<open>p\<close>
  once more always throws. It throws \<open>DuplicateUniquePartError\<close> when the last fragment of
  the chain is of the part \<open>p\<close>, and \<open>OutOfOrderError\<close> when it is not (a fragment of another
  part, of a higher rank, was appended in between): \<open>checkCurrentOrder\<close> compares with the
  rank of the last fragment only.
\<close>

theorem second_unique_part_raises:
  assumes "this < length h" and "chain ps h this = (Inr a, h')"
    and "(p, val) \<in> set ps" and "unique_part p"
  shows "fst (append_part p val' h' a) =
         Inl (if fst (last ps) = p then DuplicateUniquePartError else OutOfOrderError)"
proof -
  from assms(3) have ne: "ps \<noteq> []" by auto
  from chain_last [OF assms(1,2) ne] assms(3)
  have a: "a < length h'" and ord: "get_currentOrder h' a = Some (rank (fst (last ps)))"
    and le: "rank p \<le> rank (fst (last ps))" by auto
  show ?thesis
  proof (cases "fst (last ps) = p")
    case True
    with ord assms(4) show ?thesis by (simp add: append_part_result [OF a])
  next
    case False
    with rank_inj have "rank (fst (last ps)) \<noteq> rank p" by blast
    with le have "rank p < rank (fst (last ps))" by simp
    with ord False show ?thesis by (simp add: append_part_result [OF a])
  qed
qed

theorem second_unique_part_raises_witness:
  "fst (append_part Element ''c''
     (snd (chain [(Element, ''a''), (Class, ''b'')] init_heap root))
     (length init_heap + 1)) = Inl OutOfOrderError
   \<and> fst (append_part Id ''c''
     (snd (chain [(Element, ''a''), (Id, ''b'')] init_heap root))
     (length init_heap + 1)) = Inl DuplicateUniquePartError"
proof -
  have 1: "root < length init_heap" by (simp add: eval_defs)
  have 2: "chain [(Element, ''a''), (Class, ''b'')] init_heap root =
      (Inr (length init_heap + 1), snd (chain [(Element, ''a''), (Class, ''b'')] init_heap root))"
    by (simp add: eval_defs)
  have 3: "chain [(Element, ''a''), (Id, ''b'')] init_heap root =
      (Inr (length init_heap + 1), snd (chain [(Element, ''a''), (Id, ''b'')] init_heap root))"
    by (simp add: eval_defs)
  from second_unique_part_raises [OF 1 2, of Element "''a''" "''c''"]
    second_unique_part_raises [OF 1 3, of Id "''b''" "''c''"]
  show ?thesis by simp
qed

theorem duplicate_error_counterexample:
  "fst (chain [(Element, ''a''), (Class, ''b'')] init_heap root) = Inr 2
   \<and> fst (element ''c'' (snd (chain [(Element, ''a''), (Class, ''b'')] init_heap root)) 2)
       = Inl OutOfOrderError
   \<and> fst (element ''c'' (snd (chain [(Element, ''a''), (Class, ''b'')] init_heap root)) 2)
       \<noteq> Inl DuplicateUniquePartError"
  by (simp add: eval_defs)


section \<open>A fragment of a lower rank\<close>

text \<open>
  C2. In a state whose \<open>currentOrder\<close> is \<open>r\<close>, appending a fragment of a part whose rank is
  less than \<open>r\<close> throws \<open>OutOfOrderError\<close>; in particular \<open>element\<close> called on the
  state that \<open>id\<close> has returned throws \<open>OutOfOrderError\<close>.
\<close>

theorem out_of_order_raises:
  assumes "this < length h"
  shows "(get_currentOrder h this = Some r \<and> rank p < r \<longrightarrow>
            fst (append_part p val h this) = Inl OutOfOrderError)
       \<and> (fst (id_sel v h this) = Inr a \<longrightarrow>
            fst (element w (snd (id_sel v h this)) a) = Inl OutOfOrderError)"
proof (intro conjI impI)
  assume "get_currentOrder h this = Some r \<and> rank p < r"
  then show "fst (append_part p val h this) = Inl OutOfOrderError"
    by (auto simp add: append_part_result [OF assms])
next
  assume ok: "fst (id_sel v h this) = Inr a"
  then have step: "append_part Id v h this = (Inr a, snd (id_sel v h this))"
    by (simp add: prod_eq_iff)
  from append_part_Inr_state [OF assms step]
  have "a < length (snd (id_sel v h this))"
    and "get_currentOrder (snd (id_sel v h this)) a = Some 2" by simp_all
  then show "fst (element w (snd (id_sel v h this)) a) = Inl OutOfOrderError"
    using append_part_result [of a "snd (id_sel v h this)" Element w] by simp
qed

theorem out_of_order_raises_witness:
  "root < length init_heap
   \<and> fst (id_sel ''main'' init_heap root) = Inr 1
   \<and> get_currentOrder (snd (id_sel ''main'' init_heap root)) 1 = Some 2
   \<and> fst (element ''div'' (snd (id_sel ''main'' init_heap root)) 1) = Inl OutOfOrderError
   \<and> fst (append_part Element ''div'' (snd (id_sel ''main'' init_heap root)) 1)
       = Inl OutOfOrderError"
proof -
  have 1: "root < length init_heap" by (simp add: eval_defs)
  have 2: "fst (id_sel ''main'' init_heap root) = Inr 1" by (simp add: eval_defs)
  have 3: "get_currentOrder (snd (id_sel ''main'' init_heap root)) 1 = Some 2"
    by (simp add: eval_defs)
  have 4: "1 < length (snd (id_sel ''main'' init_heap root))" by (simp add: eval_defs)
  from out_of_order_raises [OF 1, of 0 Element "''x''" "''main''" 1 "''div''"] 2
  have 5: "fst (element ''div'' (snd (id_sel ''main'' init_heap root)) 1) = Inl OutOfOrderError"
    by simp
  from out_of_order_raises [OF 4, of 2 Element "''div''" "''x''" 0 "''x''"] 3
  have 6: "fst (append_part Element ''div'' (snd (id_sel ''main'' init_heap root)) 1)
       = Inl OutOfOrderError" by simp
  from 1 2 3 5 6 show ?thesis by simp
qed


section \<open>What the six chaining methods return\<close>

text \<open>
  C3. When \<open>element\<close>, \<open>id\<close>, \<open>class\<close>, \<open>attr\<close>, \<open>pseudoClass\<close> or
  \<open>pseudoElement\<close> returns, it returns a new object (its address is the first free one)
  whose text is the text of the receiver followed by \<open>val\<close>, \<open>#val\<close>, \<open>.val\<close>,
  \<open>[val]\<close>, \<open>:val\<close>, \<open>::val\<close>, whose rank is 1, 2, 3, 4, 5, 6 and whose type is the
  name of the part.
  Each of them does return on an existing receiver exactly when \<open>checkCurrentOrder\<close>
  lets it: the receiver's rank is not above the rank of the part and, for element, id and
  pseudo-element, not equal to it.
\<close>

theorem chaining_methods_return:
  "(element val h this = (Inr a, h') \<longrightarrow>
      a = length h \<and> get_currentSelector h' a = get_currentSelector h this @ val
      \<and> get_currentOrder h' a = Some 1 \<and> get_currentSelectorType h' a = Some ''element'')
   \<and> (id_sel val h this = (Inr a, h') \<longrightarrow>
      a = length h \<and> get_currentSelector h' a = get_currentSelector h this @ ''#'' @ val
      \<and> get_currentOrder h' a = Some 2 \<and> get_currentSelectorType h' a = Some ''id'')
   \<and> (class_sel val h this = (Inr a, h') \<longrightarrow>
      a = length h \<and> get_currentSelector h' a = get_currentSelector h this @ ''.'' @ val
      \<and> get_currentOrder h' a = Some 3 \<and> get_currentSelectorType h' a = Some ''class'')
   \<and> (attr val h this = (Inr a, h') \<longrightarrow>
      a = length h
      \<and> get_currentSelector h' a = get_currentSelector h this @ ''['' @ val @ '']''
      \<and> get_currentOrder h' a = Some 4 \<and> get_currentSelectorType h' a = Some ''attr'')
   \<and> (pseudoClass val h this = (Inr a, h') \<longrightarrow>
      a = length h \<and> get_currentSelector h' a = get_currentSelector h this @ '':'' @ val
      \<and> get_currentOrder h' a = Some 5
      \<and> get_currentSelectorType h' a = Some ''pseudoClass'')
   \<and> (pseudoElement val h this = (Inr a, h') \<longrightarrow>
      a = length h \<and> get_currentSelector h' a = get_currentSelector h this @ ''::'' @ val
      \<and> get_currentOrder h' a = Some 6
      \<and> get_currentSelectorType h' a = Some ''pseudoElement'')
   \<and> (this < length h \<longrightarrow>
        (fst (element val h this) = Inr (length h)) =
          (get_currentOrder h this \<noteq> Some 1 \<and> \<not> js_gt (get_currentOrder h this) (Some 1))
      \<and> (fst (id_sel val h this) = Inr (length h)) =
          (get_currentOrder h this \<noteq> Some 2 \<and> \<not> js_gt (get_currentOrder h this) (Some 2))
      \<and> (fst (class_sel val h this) = Inr (length h)) =
          (\<not> js_gt (get_currentOrder h this) (Some 3))
      \<and> (fst (attr val h this) = Inr (length h)) =
          (\<not> js_gt (get_currentOrder h this) (Some 4))
      \<and> (fst (pseudoClass val h this) = Inr (length h)) =
          (\<not> js_gt (get_currentOrder h this) (Some 5))
      \<and> (fst (pseudoElement val h this) = Inr (length h)) =
          (get_currentOrder h this \<noteq> Some 6 \<and> \<not> js_gt (get_currentOrder h this) (Some 6)))"
proof -
  have ret: "this < length h \<longrightarrow>
        (fst (element val h this) = Inr (length h)) =
          (get_currentOrder h this \<noteq> Some 1 \<and> \<not> js_gt (get_currentOrder h this) (Some 1))
      \<and> (fst (id_sel val h this) = Inr (length h)) =
          (get_currentOrder h this \<noteq> Some 2 \<and> \<not> js_gt (get_currentOrder h this) (Some 2))
      \<and> (fst (class_sel val h this) = Inr (length h)) =
          (\<not> js_gt (get_currentOrder h this) (Some 3))
      \<and> (fst (attr val h this) = Inr (length h)) =
          (\<not> js_gt (get_currentOrder h this) (Some 4))
      \<and> (fst (pseudoClass val h this) = Inr (length h)) =
          (\<not> js_gt (get_currentOrder h this) (Some 5))
      \<and> (fst (pseudoElement val h this) = Inr (length h)) =
          (get_currentOrder h this \<noteq> Some 6 \<and> \<not> js_gt (get_currentOrder h this) (Some 6))"
  proof
    assume a: "this < length h"
    from append_part_returns_iff [OF a, of Element val]
      append_part_returns_iff [OF a, of Id val]
      append_part_returns_iff [OF a, of Class val]
      append_part_returns_iff [OF a, of Attr val]
      append_part_returns_iff [OF a, of PseudoClass val]
      append_part_returns_iff [OF a, of PseudoElement val]
    show "(fst (element val h this) = Inr (length h)) =
          (get_currentOrder h this \<noteq> Some 1 \<and> \<not> js_gt (get_currentOrder h this) (Some 1))
      \<and> (fst (id_sel val h this) = Inr (length h)) =
          (get_currentOrder h this \<noteq> Some 2 \<and> \<not> js_gt (get_currentOrder h this) (Some 2))
      \<and> (fst (class_sel val h this) = Inr (length h)) =
          (\<not> js_gt (get_currentOrder h this) (Some 3))
      \<and> (fst (attr val h this) = Inr (length h)) =
          (\<not> js_gt (get_currentOrder h this) (Some 4))
      \<and> (fst (pseudoClass val h this) = Inr (length h)) =
          (\<not> js_gt (get_currentOrder h this) (Some 5))
      \<and> (fst (pseudoElement val h this) = Inr (length h)) =
          (get_currentOrder h this \<noteq> Some 6 \<and> \<not> js_gt (get_currentOrder h this) (Some 6))"
      by simp
  qed
  from part_returns [of Element val h this a h'] part_returns [of Id val h this a h']
    part_returns [of Class val h this a h'] part_returns [of Attr val h this a h']
    part_returns [of PseudoClass val h this a h']
    part_returns [of PseudoElement val h this a h']
  have res: "(element val h this = (Inr a, h') \<longrightarrow>
      a = length h \<and> get_currentSelector h' a = get_currentSelector h this @ val
      \<and> get_currentOrder h' a = Some 1 \<and> get_currentSelectorType h' a = Some ''element'')
   \<and> (id_sel val h this = (Inr a, h') \<longrightarrow>
      a = length h \<and> get_currentSelector h' a = get_currentSelector h this @ ''#'' @ val
      \<and> get_currentOrder h' a = Some 2 \<and> get_currentSelectorType h' a = Some ''id'')
   \<and> (class_sel val h this = (Inr a, h') \<longrightarrow>
      a = length h \<and> get_currentSelector h' a = get_currentSelector h this @ ''.'' @ val
      \<and> get_currentOrder h' a = Some 3 \<and> get_currentSelectorType h' a = Some ''class'')
   \<and> (attr val h this = (Inr a, h') \<longrightarrow>
      a = length h
      \<and> get_currentSelector h' a = get_currentSelector h this @ ''['' @ val @ '']''
      \<and> get_currentOrder h' a = Some 4 \<and> get_currentSelectorType h' a = Some ''attr'')
   \<and> (pseudoClass val h this = (Inr a, h') \<longrightarrow>
      a = length h \<and> get_currentSelector h' a = get_currentSelector h this @ '':'' @ val
      \<and> get_currentOrder h' a = Some 5
      \<and> get_currentSelectorType h' a = Some ''pseudoClass'')
   \<and> (pseudoElement val h this = (Inr a, h') \<longrightarrow>
      a = length h \<and> get_currentSelector h' a = get_currentSelector h this @ ''::'' @ val
      \<and> get_currentOrder h' a = Some 6
      \<and> get_currentSelectorType h' a = Some ''pseudoElement'')"
    by simp
  from res ret show ?thesis by blast
qed

theorem chaining_methods_return_witness:
  "0 < length (snd (chain [] init_heap root))
   \<and> element ''div'' (snd (chain [] init_heap root)) 0 = (Inr 1, snd (element ''div'' (snd (chain [] init_heap root)) 0))
   \<and> get_currentSelector (snd (element ''div'' (snd (chain [] init_heap root)) 0)) 1 = ''div''
   \<and> get_currentOrder (snd (element ''div'' (snd (chain [] init_heap root)) 0)) 1 = Some 1
   \<and> get_currentSelectorType (snd (element ''div'' (snd (chain [] init_heap root)) 0)) 1 = Some ''element''
   \<and> 1 < length (snd (chain [(Element, ''div'')] init_heap root))
   \<and> id_sel ''main'' (snd (chain [(Element, ''div'')] init_heap root)) 1 = (Inr 2, snd (id_sel ''main'' (snd (chain [(Element, ''div'')] init_heap root)) 1))
   \<and> get_currentSelector (snd (id_sel ''main'' (snd (chain [(Element, ''div'')] init_heap root)) 1)) 2 = ''div#main''
   \<and> get_currentOrder (snd (id_sel ''main'' (snd (chain [(Element, ''div'')] init_heap root)) 1)) 2 = Some 2
   \<and> get_currentSelectorType (snd (id_sel ''main'' (snd (chain [(Element, ''div'')] init_heap root)) 1)) 2 = Some ''id''
   \<and> 2 < length (snd (chain [(Element, ''div''), (Id, ''main'')] init_heap root))
   \<and> class_sel ''c'' (snd (chain [(Element, ''div''), (Id, ''main'')] init_heap root)) 2 = (Inr 3, snd (class_sel ''c'' (snd (chain [(Element, ''div''), (Id, ''main'')] init_heap root)) 2))
   \<and> get_currentSelector (snd (class_sel ''c'' (snd (chain [(Element, ''div''), (Id, ''main'')] init_heap root)) 2)) 3 = ''div#main.c''
   \<and> get_currentOrder (snd (class_sel ''c'' (snd (chain [(Element, ''div''), (Id, ''main'')] init_heap root)) 2)) 3 = Some 3
   \<and> get_currentSelectorType (snd (class_sel ''c'' (snd (chain [(Element, ''div''), (Id, ''main'')] init_heap root)) 2)) 3 = Some ''class''
   \<and> 3 < length (snd (chain [(Element, ''div''), (Id, ''main''), (Class, ''c'')] init_heap root))
   \<and> attr ''a'' (snd (chain [(Element, ''div''), (Id, ''main''), (Class, ''c'')] init_heap root)) 3 = (Inr 4, snd (attr ''a'' (snd (chain [(Element, ''div''), (Id, ''main''), (Class, ''c'')] init_heap root)) 3))
   \<and> get_currentSelector (snd (attr ''a'' (snd (chain [(Element, ''div''), (Id, ''main''), (Class, ''c'')] init_heap root)) 3)) 4 = ''div#main.c[a]''
   \<and> get_currentOrder (snd (attr ''a'' (snd (chain [(Element, ''div''), (Id, ''main''), (Class, ''c'')] init_heap root)) 3)) 4 = Some 4
   \<and> get_currentSelectorType (snd (attr ''a'' (snd (chain [(Element, ''div''), (Id, ''main''), (Class, ''c'')] init_heap root)) 3)) 4 = Some ''attr''
   \<and> 4 < length (snd (chain [(Element, ''div''), (Id, ''main''), (Class, ''c''), (Attr, ''a'')] init_heap root))
   \<and> pseudoClass ''hover'' (snd (chain [(Element, ''div''), (Id, ''main''), (Class, ''c''), (Attr, ''a'')] init_heap root)) 4 = (Inr 5, snd (pseudoClass ''hover'' (snd (chain [(Element, ''div''), (Id, ''main''), (Class, ''c''), (Attr, ''a'')] init_heap root)) 4))
   \<and> get_currentSelector (snd (pseudoClass ''hover'' (snd (chain [(Element, ''div''), (Id, ''main''), (Class, ''c''), (Attr, ''a'')] init_heap root)) 4)) 5 = ''div#main.c[a]:hover''
   \<and> get_currentOrder (snd (pseudoClass ''hover'' (snd (chain [(Element, ''div''), (Id, ''main''), (Class, ''c''), (Attr, ''a'')] init_heap root)) 4)) 5 = Some 5
   \<and> get_currentSelectorType (snd (pseudoClass ''hover'' (snd (chain [(Element, ''div''), (Id, ''main''), (Class, ''c''), (Attr, ''a'')] init_heap root)) 4)) 5 = Some ''pseudoClass''
   \<and> 5 < length (snd (chain [(Element, ''div''), (Id, ''main''), (Class, ''c''), (Attr, ''a''), (PseudoClass, ''hover'')] init_heap root))
   \<and> pseudoElement ''after'' (snd (chain [(Element, ''div''), (Id, ''main''), (Class, ''c''), (Attr, ''a''), (PseudoClass, ''hover'')] init_heap root)) 5 = (Inr 6, snd (pseudoElement ''after'' (snd (chain [(Element, ''div''), (Id, ''main''), (Class, ''c''), (Attr, ''a''), (PseudoClass, ''hover'')] init_heap root)) 5))
   \<and> get_currentSelector (snd (pseudoElement ''after'' (snd (chain [(Element, ''div''), (Id, ''main''), (Class, ''c''), (Attr, ''a''), (PseudoClass, ''hover'')] init_heap root)) 5)) 6 = ''div#main.c[a]:hover::after''
   \<and> get_currentOrder (snd (pseudoElement ''after'' (snd (chain [(Element, ''div''), (Id, ''main''), (Class, ''c''), (Attr, ''a''), (PseudoClass, ''hover'')] init_heap root)) 5)) 6 = Some 6
   \<and> get_currentSelectorType (snd (pseudoElement ''after'' (snd (chain [(Element, ''div''), (Id, ''main''), (Class, ''c''), (Attr, ''a''), (PseudoClass, ''hover'')] init_heap root)) 5)) 6 = Some ''pseudoElement''"
proof -
  have g1: "0 < length (snd (chain [] init_heap root))" "length (snd (chain [] init_heap root)) = 1"
    by (simp_all add: eval_defs)
  have o1: "get_currentOrder (snd (chain [] init_heap root)) 0 = Some 0"
    "get_currentSelector (snd (chain [] init_heap root)) 0 = ''''"
    by (simp_all add: eval_defs)
  from chaining_methods_return [of "''div''" "snd (chain [] init_heap root)" 0, THEN conjunct2, THEN conjunct2, THEN conjunct2, THEN conjunct2, THEN conjunct2, THEN conjunct2, THEN mp, OF g1(1), THEN conjunct1]
    g1(2) o1(1)
  have "fst (element ''div'' (snd (chain [] init_heap root)) 0) = Inr 1" by simp
  then have e1: "element ''div'' (snd (chain [] init_heap root)) 0 = (Inr 1, snd (element ''div'' (snd (chain [] init_heap root)) 0))"
    by (simp add: prod_eq_iff)
  note t1 = chaining_methods_return [THEN conjunct1, THEN mp, OF e1]
  from t1 [THEN conjunct2, THEN conjunct1] o1(2)
  have r1: "get_currentSelector (snd (element ''div'' (snd (chain [] init_heap root)) 0)) 1 = ''div''"
    by simp
  from t1 [THEN conjunct2, THEN conjunct2]
  have s1: "get_currentOrder (snd (element ''div'' (snd (chain [] init_heap root)) 0)) 1 = Some 1
    \<and> get_currentSelectorType (snd (element ''div'' (snd (chain [] init_heap root)) 0)) 1 = Some ''element''" .
  have g2: "1 < length (snd (chain [(Element, ''div'')] init_heap root))" "length (snd (chain [(Element, ''div'')] init_heap root)) = 2"
    by (simp_all add: eval_defs)
  have o2: "get_currentOrder (snd (chain [(Element, ''div'')] init_heap root)) 1 = Some 1"
    "get_currentSelector (snd (chain [(Element, ''div'')] init_heap root)) 1 = ''div''"
    by (simp_all add: eval_defs)
  from chaining_methods_return [of "''main''" "snd (chain [(Element, ''div'')] init_heap root)" 1, THEN conjunct2, THEN conjunct2, THEN conjunct2, THEN conjunct2, THEN conjunct2, THEN conjunct2, THEN mp, OF g2(1), THEN conjunct2, THEN conjunct1]
    g2(2) o2(1)
  have "fst (id_sel ''main'' (snd (chain [(Element, ''div'')] init_heap root)) 1) = Inr 2" by simp
  then have e2: "id_sel ''main'' (snd (chain [(Element, ''div'')] init_heap root)) 1 = (Inr 2, snd (id_sel ''main'' (snd (chain [(Element, ''div'')] init_heap root)) 1))"
    by (simp add: prod_eq_iff)
  note t2 = chaining_methods_return [THEN conjunct2, THEN conjunct1, THEN mp, OF e2]
  from t2 [THEN conjunct2, THEN conjunct1] o2(2)
  have r2: "get_currentSelector (snd (id_sel ''main'' (snd (chain [(Element, ''div'')] init_heap root)) 1)) 2 = ''div#main''"
    by simp
  from t2 [THEN conjunct2, THEN conjunct2]
  have s2: "get_currentOrder (snd (id_sel ''main'' (snd (chain [(Element, ''div'')] init_heap root)) 1)) 2 = Some 2
    \<and> get_currentSelectorType (snd (id_sel ''main'' (snd (chain [(Element, ''div'')] init_heap root)) 1)) 2 = Some ''id''" .
  have g3: "2 < length (snd (chain [(Element, ''div''), (Id, ''main'')] init_heap root))" "length (snd (chain [(Element, ''div''), (Id, ''main'')] init_heap root)) = 3"
    by (simp_all add: eval_defs)
  have o3: "get_currentOrder (snd (chain [(Element, ''div''), (Id, ''main'')] init_heap root)) 2 = Some 2"
    "get_currentSelector (snd (chain [(Element, ''div''), (Id, ''main'')] init_heap root)) 2 = ''div#main''"
    by (simp_all add: eval_defs)
  from chaining_methods_return [of "''c''" "snd (chain [(Element, ''div''), (Id, ''main'')] init_heap root)" 2, THEN conjunct2, THEN conjunct2, THEN conjunct2, THEN conjunct2, THEN conjunct2, THEN conjunct2, THEN mp, OF g3(1), THEN conjunct2, THEN conjunct2, THEN conjunct1]
    g3(2) o3(1)
  have "fst (class_sel ''c'' (snd (chain [(Element, ''div''), (Id, ''main'')] init_heap root)) 2) = Inr 3" by simp
  then have e3: "class_sel ''c'' (snd (chain [(Element, ''div''), (Id, ''main'')] init_heap root)) 2 = (Inr 3, snd (class_sel ''c'' (snd (chain [(Element, ''div''), (Id, ''main'')] init_heap root)) 2))"
    by (simp add: prod_eq_iff)
  note t3 = chaining_methods_return [THEN conjunct2, THEN conjunct2, THEN conjunct1, THEN mp, OF e3]
  from t3 [THEN conjunct2, THEN conjunct1] o3(2)
  have r3: "get_currentSelector (snd (class_sel ''c'' (snd (chain [(Element, ''div''), (Id, ''main'')] init_heap root)) 2)) 3 = ''div#main.c''"
    by simp
  from t3 [THEN conjunct2, THEN conjunct2]
  have s3: "get_currentOrder (snd (class_sel ''c'' (snd (chain [(Element, ''div''), (Id, ''main'')] init_heap root)) 2)) 3 = Some 3
    \<and> get_currentSelectorType (snd (class_sel ''c'' (snd (chain [(Element, ''div''), (Id, ''main'')] init_heap root)) 2)) 3 = Some ''class''" .
  have g4: "3 < length (snd (chain [(Element, ''div''), (Id, ''main''), (Class, ''c'')] init_heap root))" "length (snd (chain [(Element, ''div''), (Id, ''main''), (Class, ''c'')] init_heap root)) = 4"
    by (simp_all add: eval_defs)
  have o4: "get_currentOrder (snd (chain [(Element, ''div''), (Id, ''main''), (Class, ''c'')] init_heap root)) 3 = Some 3"
    "get_currentSelector (snd (chain [(Element, ''div''), (Id, ''main''), (Class, ''c'')] init_heap root)) 3 = ''div#main.c''"
    by (simp_all add: eval_defs)
  from chaining_methods_return [of "''a''" "snd (chain [(Element, ''div''), (Id, ''main''), (Class, ''c'')] init_heap root)" 3, THEN conjunct2, THEN conjunct2, THEN conjunct2, THEN conjunct2, THEN conjunct2, THEN conjunct2, THEN mp, OF g4(1), THEN conjunct2, THEN conjunct2, THEN conjunct2, THEN conjunct1]
    g4(2) o4(1)
  have "fst (attr ''a'' (snd (chain [(Element, ''div''), (Id, ''main''), (Class, ''c'')] init_heap root)) 3) = Inr 4" by simp
  then have e4: "attr ''a'' (snd (chain [(Element, ''div''), (Id, ''main''), (Class, ''c'')] init_heap root)) 3 = (Inr 4, snd (attr ''a'' (snd (chain [(Element, ''div''), (Id, ''main''), (Class, ''c'')] init_heap root)) 3))"
    by (simp add: prod_eq_iff)
  note t4 = chaining_methods_return [THEN conjunct2, THEN conjunct2, THEN conjunct2, THEN conjunct1, THEN mp, OF e4]
  from t4 [THEN conjunct2, THEN conjunct1] o4(2)
  have r4: "get_currentSelector (snd (attr ''a'' (snd (chain [(Element, ''div''), (Id, ''main''), (Class, ''c'')] init_heap root)) 3)) 4 = ''div#main.c[a]''"
    by simp
  from t4 [THEN conjunct2, THEN conjunct2]
  have s4: "get_currentOrder (snd (attr ''a'' (snd (chain [(Element, ''div''), (Id, ''main''), (Class, ''c'')] init_heap root)) 3)) 4 = Some 4
    \<and> get_currentSelectorType (snd (attr ''a'' (snd (chain [(Element, ''div''), (Id, ''main''), (Class, ''c'')] init_heap root)) 3)) 4 = Some ''attr''" .
  have g5: "4 < length (snd (chain [(Element, ''div''), (Id, ''main''), (Class, ''c''), (Attr, ''a'')] init_heap root))" "length (snd (chain [(Element, ''div''), (Id, ''main''), (Class, ''c''), (Attr, ''a'')] init_heap root)) = 5"
    by (simp_all add: eval_defs)
  have o5: "get_currentOrder (snd (chain [(Element, ''div''), (Id, ''main''), (Class, ''c''), (Attr, ''a'')] init_heap root)) 4 = Some 4"
    "get_currentSelector (snd (chain [(Element, ''div''), (Id, ''main''), (Class, ''c''), (Attr, ''a'')] init_heap root)) 4 = ''div#main.c[a]''"
    by (simp_all add: eval_defs)
  from chaining_methods_return [of "''hover''" "snd (chain [(Element, ''div''), (Id, ''main''), (Class, ''c''), (Attr, ''a'')] init_heap root)" 4, THEN conjunct2, THEN conjunct2, THEN conjunct2, THEN conjunct2, THEN conjunct2, THEN conjunct2, THEN mp, OF g5(1), THEN conjunct2, THEN conjunct2, THEN conjunct2, THEN conjunct2, THEN conjunct1]
    g5(2) o5(1)
  have "fst (pseudoClass ''hover'' (snd (chain [(Element, ''div''), (Id, ''main''), (Class, ''c''), (Attr, ''a'')] init_heap root)) 4) = Inr 5" by simp
  then have e5: "pseudoClass ''hover'' (snd (chain [(Element, ''div''), (Id, ''main''), (Class, ''c''), (Attr, ''a'')] init_heap root)) 4 = (Inr 5, snd (pseudoClass ''hover'' (snd (chain [(Element, ''div''), (Id, ''main''), (Class, ''c''), (Attr, ''a'')] init_heap root)) 4))"
    by (simp add: prod_eq_iff)
  note t5 = chaining_methods_return [THEN conjunct2, THEN conjunct2, THEN conjunct2, THEN conjunct2, THEN conjunct1, THEN mp, OF e5]
  from t5 [THEN conjunct2, THEN conjunct1] o5(2)
  have r5: "get_currentSelector (snd (pseudoClass ''hover'' (snd (chain [(Element, ''div''), (Id, ''main''), (Class, ''c''), (Attr, ''a'')] init_heap root)) 4)) 5 = ''div#main.c[a]:hover''"
    by simp
  from t5 [THEN conjunct2, THEN conjunct2]
  have s5: "get_currentOrder (snd (pseudoClass ''hover'' (snd (chain [(Element, ''div''), (Id, ''main''), (Class, ''c''), (Attr, ''a'')] init_heap root)) 4)) 5 = Some 5
    \<and> get_currentSelectorType (snd (pseudoClass ''hover'' (snd (chain [(Element, ''div''), (Id, ''main''), (Class, ''c''), (Attr, ''a'')] init_heap root)) 4)) 5 = Some ''pseudoClass''" .
  have g6: "5 < length (snd (chain [(Element, ''div''), (Id, ''main''), (Class, ''c''), (Attr, ''a''), (PseudoClass, ''hover'')] init_heap root))" "length (snd (chain [(Element, ''div''), (Id, ''main''), (Class, ''c''), (Attr, ''a''), (PseudoClass, ''hover'')] init_heap root)) = 6"
    by (simp_all add: eval_defs)
  have o6: "get_currentOrder (snd (chain [(Element, ''div''), (Id, ''main''), (Class, ''c''), (Attr, ''a''), (PseudoClass, ''hover'')] init_heap root)) 5 = Some 5"
    "get_currentSelector (snd (chain [(Element, ''div''), (Id, ''main''), (Class, ''c''), (Attr, ''a''), (PseudoClass, ''hover'')] init_heap root)) 5 = ''div#main.c[a]:hover''"
    by (simp_all add: eval_defs)
  from chaining_methods_return [of "''after''" "snd (chain [(Element, ''div''), (Id, ''main''), (Class, ''c''), (Attr, ''a''), (PseudoClass, ''hover'')] init_heap root)" 5, THEN conjunct2, THEN conjunct2, THEN conjunct2, THEN conjunct2, THEN conjunct2, THEN conjunct2, THEN mp, OF g6(1), THEN conjunct2, THEN conjunct2, THEN conjunct2, THEN conjunct2, THEN conjunct2]
    g6(2) o6(1)
  have "fst (pseudoElement ''after'' (snd (chain [(Element, ''div''), (Id, ''main''), (Class, ''c''), (Attr, ''a''), (PseudoClass, ''hover'')] init_heap root)) 5) = Inr 6" by simp
  then have e6: "pseudoElement ''after'' (snd (chain [(Element, ''div''), (Id, ''main''), (Class, ''c''), (Attr, ''a''), (PseudoClass, ''hover'')] init_heap root)) 5 = (Inr 6, snd (pseudoElement ''after'' (snd (chain [(Element, ''div''), (Id, ''main''), (Class, ''c''), (Attr, ''a''), (PseudoClass, ''hover'')] init_heap root)) 5))"
    by (simp add: prod_eq_iff)
  note t6 = chaining_methods_return [THEN conjunct2, THEN conjunct2, THEN conjunct2, THEN conjunct2, THEN conjunct2, THEN conjunct1, THEN mp, OF e6]
  from t6 [THEN conjunct2, THEN conjunct1] o6(2)
  have r6: "get_currentSelector (snd (pseudoElement ''after'' (snd (chain [(Element, ''div''), (Id, ''main''), (Class, ''c''), (Attr, ''a''), (PseudoClass, ''hover'')] init_heap root)) 5)) 6 = ''div#main.c[a]:hover::after''"
    by simp
  from t6 [THEN conjunct2, THEN conjunct2]
  have s6: "get_currentOrder (snd (pseudoElement ''after'' (snd (chain [(Element, ''div''), (Id, ''main''), (Class, ''c''), (Attr, ''a''), (PseudoClass, ''hover'')] init_heap root)) 5)) 6 = Some 6
    \<and> get_currentSelectorType (snd (pseudoElement ''after'' (snd (chain [(Element, ''div''), (Id, ''main''), (Class, ''c''), (Attr, ''a''), (PseudoClass, ''hover'')] init_heap root)) 5)) 6 = Some ''pseudoElement''" .
  from g1(1) e1 r1 s1 g2(1) e2 r2 s2 g3(1) e3 r3 s3 g4(1) e4 r4 s4 g5(1) e5 r5 s5 g6(1) e6 r6 s6
  show ?thesis by blast
qed


section \<open>The text of a combined selector\<close>

text \<open>
  C4. For every two states and every string \<open>c\<close>, \<open>combine\<close> returns (it has no error
  path) a state whose text is the text of the first, a space, \<open>c\<close>, a space and the text
  of the second. Nesting a \<open>combine\<close> as the third or as the first argument of another
  gives the three texts from left to right, each combinator between single spaces.
\<close>

theorem combine_text:
  "get_currentSelector (snd (combine h s1 c s2)) (fst (combine h s1 c s2)) =
     get_currentSelector h s1 @ '' '' @ c @ '' '' @ get_currentSelector h s2
   \<and> (s1 < length h \<longrightarrow>
        (let (r1, h1) = combine h s2 c2 s3; (r2, h2) = combine h1 s1 c r1
         in get_currentSelector h2 r2) =
        get_currentSelector h s1 @ '' '' @ c @ '' '' @ get_currentSelector h s2
          @ '' '' @ c2 @ '' '' @ get_currentSelector h s3)
   \<and> (s3 < length h \<longrightarrow>
        (let (r1, h1) = combine h s1 c s2; (r2, h2) = combine h1 r1 c2 s3
         in get_currentSelector h2 r2) =
        get_currentSelector h s1 @ '' '' @ c @ '' '' @ get_currentSelector h s2
          @ '' '' @ c2 @ '' '' @ get_currentSelector h s3)"
  by (simp add: combine_result get_currentSelector_append_new get_currentSelector_append_old)

theorem combine_text_witness:
  "Suc 0 < length (snd (chain [(Element, ''div''), (Id, ''x'')] init_heap root))
   \<and> (let h = snd (chain [(Element, ''div''), (Id, ''x'')] init_heap root);
          (r1, h1) = combine h 2 ''~'' 0; (r2, h2) = combine h1 1 '' '' r1
      in fst (stringify h2 r2)) = ''div   div#x ~ ''"
proof -
  let ?h = "snd (chain [(Element, ''div''), (Id, ''x'')] init_heap root)"
  have 1: "Suc 0 < length ?h" by (simp add: eval_defs)
  have 2: "get_currentSelector ?h 0 = ''''" "get_currentSelector ?h (Suc 0) = ''div''"
    "get_currentSelector ?h 2 = ''div#x''"
    by (simp_all add: eval_defs)
  have 3: "fst (stringify g a) = get_currentSelector g a" for g a
    by (simp add: stringify_def)
  from combine_text [of ?h "Suc 0" "'' ''" 2 "''~''" 0, THEN conjunct2, THEN conjunct1, THEN mp,
      OF 1] 2
  have "(let (r1, h1) = combine ?h 2 ''~'' 0; (r2, h2) = combine h1 1 '' '' r1
         in get_currentSelector h2 r2) = ''div   div#x ~ ''"
    by simp
  with 1 show ?thesis by (simp add: 3 Let_def split: prod.splits)
qed

lemma combine_documented_example:
  "(let r1 = chain [(Element, ''div''), (Id, ''main''), (Class, ''container''),
                    (Class, ''draggable'')] init_heap root;
        r2 = chain [(Element, ''table''), (Id, ''data'')] (snd r1) root;
        r3 = chain [(Element, ''tr''), (PseudoClass, ''nth-of-type(even)'')] (snd r2) root;
        r4 = chain [(Element, ''td''), (PseudoClass, ''nth-of-type(even)'')] (snd r3) root;
        (c1, h1) = combine (snd r4) (projr (fst r3)) '' '' (projr (fst r4));
        (c2, h2) = combine h1 (projr (fst r2)) ''~'' c1;
        (c3, h3) = combine h2 (projr (fst r1)) ''+'' c2
    in fst (stringify h3 c3)) =
   ''div#main.container.draggable + table#data ~ tr:nth-of-type(even)   td:nth-of-type(even)''"
  by code_simp


section \<open>Parts that may repeat\<close>

text \<open>
  C5. From a state whose rank is not above the rank of \<open>p\<close>, where \<open>p\<close> is class,
  attribute or pseudo-class, any number of fragments of \<open>p\<close> in a row is appended without
  an error, and the text grows by their fragments. A part \<open>q\<close> that is element, id or
  pseudo-element is refused on a state whose rank is the rank of \<open>q\<close>. The chain
  \<open>id('main').class('container').class('editable')\<close> from the global object stringifies
  to \<open>#main.container.editable\<close>.
\<close>

theorem repeatable_parts:
  assumes "this < length h" and "p = Class \<or> p = Attr \<or> p = PseudoClass"
    and "\<not> js_gt (get_currentOrder h this) (Some (rank p))"
  shows "(case chain (map (Pair p) vals) h this of
            (Inl e, h') \<Rightarrow> False
          | (Inr a, h') \<Rightarrow>
              get_currentSelector h' a =
                get_currentSelector h this @ concat (map (fragment p) vals))
       \<and> (unique_part q \<and> get_currentOrder h this = Some (rank q) \<longrightarrow>
            fst (append_part q val h this) = Inl DuplicateUniquePartError)
       \<and> (case chain [(Id, ''main''), (Class, ''container''), (Class, ''editable'')]
                  init_heap root of
            (Inl e, h') \<Rightarrow> None
          | (Inr a, h') \<Rightarrow> Some (fst (stringify h' a))) = Some ''#main.container.editable''"
proof -
  from assms(2) have nu: "\<not> unique_part p" by auto
  from chain_repeat [OF assms(1) nu assms(3), of vals] obtain a h' where
    ok: "chain (map (Pair p) vals) h this = (Inr a, h')" by blast
  have "map (\<lambda>(p, val). fragment p val) (map (Pair p) vals) = map (fragment p) vals"
    by (induction vals) simp_all
  with chain_text [OF assms(1) ok]
  have "get_currentSelector h' a = get_currentSelector h this @ concat (map (fragment p) vals)"
    by (simp only:)
  with ok have 1: "(case chain (map (Pair p) vals) h this of
            (Inl e, h') \<Rightarrow> False
          | (Inr a, h') \<Rightarrow>
              get_currentSelector h' a =
                get_currentSelector h this @ concat (map (fragment p) vals))" by simp
  have 2: "(case chain [(Id, ''main''), (Class, ''container''), (Class, ''editable'')]
                  init_heap root of
            (Inl e, h') \<Rightarrow> None
          | (Inr a, h') \<Rightarrow> Some (fst (stringify h' a))) = Some ''#main.container.editable''"
    by (simp add: eval_defs)
  have 3: "unique_part q \<and> get_currentOrder h this = Some (rank q) \<longrightarrow>
            fst (append_part q val h this) = Inl DuplicateUniquePartError"
    by (simp add: append_part_result [OF assms(1)])
  from 1 2 3 show ?thesis by blast
qed

theorem repeatable_parts_witness:
  "root < length init_heap
   \<and> \<not> js_gt (get_currentOrder init_heap root) (Some (rank Attr))
   \<and> (case chain (map (Pair Attr) [''a'', ''b'', ''c'']) init_heap root of
         (Inl e, h') \<Rightarrow> False
       | (Inr a, h') \<Rightarrow> get_currentSelector h' a = ''[a][b][c]'')"
proof -
  have 1: "root < length init_heap" by (simp add: eval_defs)
  have 2: "\<not> js_gt (get_currentOrder init_heap root) (Some (rank Attr))"
    by (simp add: eval_defs)
  have 3: "get_currentSelector init_heap root = ''''" by (simp add: eval_defs)
  from repeatable_parts [OF 1 _ 2, of "[''a'', ''b'', ''c'']", THEN conjunct1] 3
  have "(case chain (map (Pair Attr) [''a'', ''b'', ''c'']) init_heap root of
         (Inl e, h') \<Rightarrow> False
       | (Inr a, h') \<Rightarrow> get_currentSelector h' a = ''[a][b][c]'')"
    by (simp split: prod.splits sum.splits)
  with 1 2 show ?thesis by simp
qed


section \<open>stringify reads once\<close>

text \<open>
  C6. The first \<open>stringify\<close> on a state returns its text and leaves the empty text in
  it; a second \<open>stringify\<close> on the same state returns the empty string, at once and
  after any sequence \<open>cs\<close> of other calls of the builder.
\<close>

theorem stringify_single_use:
  assumes "this < length h"
  shows "fst (stringify h this) = get_currentSelector h this
       \<and> get_currentSelector (snd (stringify h this)) this = ''''
       \<and> fst (stringify (snd (stringify h this)) this) = ''''
       \<and> fst (stringify (fold exec cs (snd (stringify h this))) this) = ''''"
proof -
  let ?h1 = "snd (stringify h this)"
  from assms have 1: "this < length ?h1" "get_currentSelector ?h1 this = ''''"
    by (simp_all add: stringify_def get_currentSelector_def)
  from consumed_fold [OF 1, of cs]
  have "fst (stringify (fold exec cs ?h1) this) = ''''" by (simp add: stringify_def)
  with assms show ?thesis by (simp add: stringify_def get_currentSelector_def)
qed

theorem stringify_single_use_witness:
  "Suc 0 < length (snd (id_sel ''main'' init_heap root))
   \<and> fst (stringify (snd (id_sel ''main'' init_heap root)) (Suc 0)) = ''#main''
   \<and> fst (stringify (snd (stringify (snd (id_sel ''main'' init_heap root)) (Suc 0))) (Suc 0))
       = ''''
   \<and> fst (stringify
        (fold exec [Append Class ''c'' (Suc 0), Combine (Suc 0) ''+'' 2, Stringify 3]
           (snd (stringify (snd (id_sel ''main'' init_heap root)) (Suc 0)))) (Suc 0)) = ''''"
proof -
  let ?h = "snd (id_sel ''main'' init_heap root)"
  have 1: "Suc 0 < length ?h" by (simp add: eval_defs)
  have 2: "get_currentSelector ?h (Suc 0) = ''#main''" by (simp add: eval_defs)
  from stringify_single_use
    [OF 1, of "[Append Class ''c'' (Suc 0), Combine (Suc 0) ''+'' 2, Stringify 3]"] 1 2
  show ?thesis by simp
qed


section \<open>A combined state has no rank\<close>

text \<open>
  C7. The object that \<open>combine\<close> returns has no \<open>currentOrder\<close> of its own, so it reads
  the \<open>0\<close> of the global object, and appending a fragment of any part to it returns a
  new state: neither error is thrown. The same holds in every store for every object that
  has no \<open>currentOrder\<close> of its own.
\<close>

theorem combined_no_rank_constraint:
  assumes "wf_heap h"
  shows "currentOrder (snd (combine h s1 c s2) ! fst (combine h s1 c s2)) = None
       \<and> get_currentOrder (snd (combine h s1 c s2)) (fst (combine h s1 c s2)) = Some 0
       \<and> fst (append_part p val (snd (combine h s1 c s2)) (fst (combine h s1 c s2)))
           = Inr (Suc (length h))
       \<and> (a < length h \<and> currentOrder (h ! a) = None \<longrightarrow>
            fst (append_part p val h a) = Inr (length h))"
proof -
  let ?h1 = "snd (combine h s1 c s2)"
  let ?r = "fst (combine h s1 c s2)"
  have none: "currentOrder (?h1 ! ?r) = None" by (simp add: combine_result)
  have r: "?r < length ?h1" and len: "length ?h1 = Suc (length h)"
    by (simp_all add: combine_result)
  from assms have wf1: "wf_heap ?h1" by (rule wf_heap_combine)
  from wf_heap_inherited_order [OF wf1 none] have ord: "get_currentOrder ?h1 ?r = Some 0" .
  have pos: "0 < rank p" by (cases p) simp_all
  from ord pos len have "fst (append_part p val ?h1 ?r) = Inr (Suc (length h))"
    by (simp add: append_part_result [OF r])
  moreover have "a < length h \<and> currentOrder (h ! a) = None \<longrightarrow>
            fst (append_part p val h a) = Inr (length h)"
    using pos wf_heap_inherited_order [OF assms, of a] by (simp add: append_part_result)
  ultimately show ?thesis using none ord by simp
qed

theorem combined_no_rank_constraint_witness:
  "wf_heap init_heap
   \<and> fst (append_part Element ''div'' (snd (combine init_heap root ''+'' root))
            (fst (combine init_heap root ''+'' root))) = Inr 2
   \<and> wf_heap (snd (combine init_heap root ''+'' root))
   \<and> Suc 0 < length (snd (combine init_heap root ''+'' root))
   \<and> currentOrder (snd (combine init_heap root ''+'' root) ! Suc 0) = None
   \<and> fst (append_part PseudoElement ''after'' (snd (combine init_heap root ''+'' root)) (Suc 0))
       = Inr 2"
proof -
  let ?h = "snd (combine init_heap root ''+'' root)"
  have 1: "wf_heap init_heap" by (simp add: eval_defs)
  have 2: "wf_heap ?h" by (simp add: eval_defs)
  have 3: "Suc 0 < length ?h" "currentOrder (?h ! Suc 0) = None" "length ?h = 2"
    "length init_heap = Suc 0"
    by (simp_all add: eval_defs)
  from combined_no_rank_constraint [OF 1, of root "''+''" root Element "''div''"]
    combined_no_rank_constraint [OF 2, of root "''+''" root PseudoElement "''after''" "Suc 0"]
    1 2 3
  show ?thesis by simp
qed


section \<open>The chaining methods and combine change no object\<close>

text \<open>
  C8. After any of the six chaining methods, whether it returns or throws, and after
  \<open>combine\<close>, the store is the old store with one object added: every object that was
  there is as it was, the receiver's text and rank included, and the returned address is
  the new one. \<open>stringify\<close> assigns the empty string to the text of its receiver, which
  changes the receiver when its text was not empty.
\<close>

theorem chaining_does_not_mutate:
  "take (length h) (snd (append_part p val h this)) = h
   \<and> (fst (append_part p val h this) = Inr a \<longrightarrow> a = length h)
   \<and> (this < length h \<longrightarrow>
        get_currentSelector (snd (append_part p val h this)) this = get_currentSelector h this
        \<and> get_currentOrder (snd (append_part p val h this)) this = get_currentOrder h this)
   \<and> take (length h) (snd (combine h s1 c s2)) = h
   \<and> fst (combine h s1 c s2) = length h
   \<and> snd (stringify h this) = h[this := (h ! this)\<lparr> currentSelector := '''' \<rparr>]
   \<and> (this < length h \<and> get_currentSelector h this \<noteq> '''' \<longrightarrow>
        snd (stringify h this) ! this \<noteq> h ! this)"
proof -
  have "this < length h \<and> get_currentSelector h this \<noteq> '''' \<longrightarrow>
        snd (stringify h this) ! this \<noteq> h ! this"
    by (auto simp add: stringify_def get_currentSelector_def
        dest: arg_cong [where f = currentSelector])
  moreover have "fst (append_part p val h this) = Inr a \<longrightarrow> a = length h"
    using append_part_addr by blast
  ultimately show ?thesis
    by (simp add: append_part_heap combine_result get_currentSelector_append_old
        get_currentOrder_append_old stringify_def)
qed

theorem chaining_does_not_mutate_witness:
  "fst (append_part Id ''a'' init_heap root) = Inr (Suc 0)
   \<and> Suc 0 < length (snd (id_sel ''a'' init_heap root))
   \<and> fst (append_part Element ''b'' (snd (id_sel ''a'' init_heap root)) (Suc 0))
       = Inl OutOfOrderError
   \<and> get_currentSelector
        (snd (append_part Element ''b'' (snd (id_sel ''a'' init_heap root)) (Suc 0))) (Suc 0)
       = ''#a''
   \<and> get_currentOrder
        (snd (append_part Element ''b'' (snd (id_sel ''a'' init_heap root)) (Suc 0))) (Suc 0)
       = Some 2
   \<and> get_currentSelector (snd (id_sel ''a'' init_heap root)) (Suc 0) \<noteq> ''''
   \<and> snd (stringify (snd (id_sel ''a'' init_heap root)) (Suc 0)) ! Suc 0
       \<noteq> snd (id_sel ''a'' init_heap root) ! Suc 0"
proof -
  let ?h = "snd (id_sel ''a'' init_heap root)"
  have 1: "fst (append_part Id ''a'' init_heap root) = Inr (Suc 0)" by (simp add: eval_defs)
  have 2: "Suc 0 < length ?h" by (simp add: eval_defs)
  have 3: "fst (append_part Element ''b'' ?h (Suc 0)) = Inl OutOfOrderError"
    by (simp add: eval_defs)
  have 4: "get_currentSelector ?h (Suc 0) = ''#a''" "get_currentOrder ?h (Suc 0) = Some 2"
    by (simp_all add: eval_defs)
  from 4 have 5: "get_currentSelector ?h (Suc 0) \<noteq> ''''" by simp
  note frame = chaining_does_not_mutate [of ?h Element "''b''" "Suc 0" 0 0 "''''" 0]
  from frame 2 4 have 6:
    "get_currentSelector (snd (append_part Element ''b'' ?h (Suc 0))) (Suc 0) = ''#a''"
    "get_currentOrder (snd (append_part Element ''b'' ?h (Suc 0))) (Suc 0) = Some 2"
    by simp_all
  from frame 2 5 have 7: "snd (stringify ?h (Suc 0)) ! Suc 0 \<noteq> ?h ! Suc 0" by blast
  from 1 2 3 5 6 7 show ?thesis by blast
qed


section \<open>stringify changes its receiver only\<close>

text \<open>
  C9. \<open>stringify\<close> on a state leaves every other object as it was and allocates nothing.
  The global object stays as declared, its text empty, also when it is the receiver; every
  state reads the rank it read before; and a chain started on the global object afterwards
  starts from the empty text.
\<close>

theorem stringify_frame:
  assumes "wf_heap h"
  shows "(b \<noteq> this \<longrightarrow> snd (stringify h this) ! b = h ! b)
       \<and> length (snd (stringify h this)) = length h
       \<and> snd (stringify h this) ! root = cssSelectorBuilder
       \<and> get_currentSelector (snd (stringify h this)) root = ''''
       \<and> get_currentOrder (snd (stringify h this)) b = get_currentOrder h b
       \<and> (fst (append_part p val (snd (stringify h this)) root) = Inr a \<longrightarrow>
            get_currentSelector (snd (append_part p val (snd (stringify h this)) root)) a
              = fragment p val)"
proof -
  let ?h1 = "snd (stringify h this)"
  from assms have wf1: "wf_heap ?h1" by (rule wf_heap_stringify)
  then have root1: "?h1 ! root = cssSelectorBuilder" by (simp add: wf_heap_def)
  then have text1: "get_currentSelector ?h1 root = ''''"
    by (simp add: get_currentSelector_def cssSelectorBuilder_def)
  have other: "b \<noteq> this \<longrightarrow> ?h1 ! b = h ! b" by (simp add: stringify_def)
  have len: "length ?h1 = length h" by (simp add: stringify_def)
  have fld: "currentOrder (?h1 ! b) = currentOrder (h ! b)"
    by (cases "this < length h"; cases "b = this")
      (simp_all add: stringify_def list_update_beyond)
  from assms root1 have "currentOrder (?h1 ! root) = currentOrder (h ! root)"
    by (simp add: wf_heap_def)
  with fld have ord: "get_currentOrder ?h1 b = get_currentOrder h b"
    by (simp only: get_currentOrder_def)
  have "fst (append_part p val ?h1 root) = Inr a \<longrightarrow>
          get_currentSelector (snd (append_part p val ?h1 root)) a = fragment p val"
  proof
    assume "fst (append_part p val ?h1 root) = Inr a"
    then have "a = length ?h1" by (rule append_part_addr)
    with text1 show "get_currentSelector (snd (append_part p val ?h1 root)) a = fragment p val"
      by (simp add: append_part_heap get_currentSelector_append_new)
  qed
  with other len root1 text1 ord show ?thesis by simp
qed

theorem stringify_frame_witness:
  "wf_heap (snd (id_sel ''main'' init_heap root))
   \<and> root \<noteq> Suc 0
   \<and> snd (stringify (snd (id_sel ''main'' init_heap root)) (Suc 0)) ! root
       = snd (id_sel ''main'' init_heap root) ! root
   \<and> fst (append_part Class ''c''
        (snd (stringify (snd (id_sel ''main'' init_heap root)) (Suc 0))) root) = Inr 2
   \<and> get_currentSelector (snd (append_part Class ''c''
        (snd (stringify (snd (id_sel ''main'' init_heap root)) (Suc 0))) root)) 2 = ''.c''"
proof -
  let ?h = "snd (id_sel ''main'' init_heap root)"
  have 1: "wf_heap ?h" by (simp add: eval_defs)
  have 2: "root \<noteq> Suc 0" by (simp add: root_def)
  have 3: "fst (append_part Class ''c'' (snd (stringify ?h (Suc 0))) root) = Inr 2"
    by (simp add: eval_defs)
  from stringify_frame [OF 1, of root "Suc 0" Class "''c''" 2] 1 2 3
  show ?thesis by simp
qed

end
